theory Spec2Isabelle
  imports Complex_Main "HOL-Library.Multiset" "HOL-Library.Log_Nat"
begin

section \<open>Data\<close>

text \<open>
  The dictionaries of the program with a fixed set of keys are records, declared here
  together; a key that several of them have is written with its record's name where
  the later declaration hides it (\<open>summary.total_tokens\<close>, \<open>request.model\<close>).
\<close>

text \<open>The dictionary that \<open>get_analytics_summary\<close> returns.\<close>

record summary =
  total_conversations :: int
  total_tokens :: int
  avg_response_time :: rat
  top_models :: "(string \<times> int) list"
  top_users :: "(string \<times> int) list"

text \<open>A message of the conversation, and the JSON body posted to the provider.\<close>

record message =
  role :: string
  content :: string

record request =
  model :: string
  messages :: "message list"
  max_tokens :: nat
  temperature :: rat
  stream :: bool

text \<open>The dictionary that \<open>generate_response\<close> returns.\<close>

record api_result =
  success :: bool
  content :: "string option"
  error :: "string option"

text \<open>The dictionary that \<open>generate_response_with_context\<close> returns.\<close>

record context_result = api_result +
  response_time :: rat
  prompt_tokens :: int
  response_tokens :: int
  model :: string

section \<open>Usage statistics (analytics.py)\<close>

text \<open>
  Python dictionaries iterate in insertion order, and the summary view depends on that
  order, so a dictionary is an association list with the keys in insertion order.
\<close>

type_synonym 'v dict = "(string \<times> 'v) list"

text \<open>\<open>d[k]\<close> as a lookup; \<open>None\<close> stands for the key being absent (\<open>k in d\<close> is false).\<close>

fun dict_getitem :: "string \<Rightarrow> 'v dict \<Rightarrow> 'v option" where
  "dict_getitem k [] = None"
| "dict_getitem k ((k', v) # d) = (if k' = k then Some v else dict_getitem k d)"

text \<open>\<open>d[k] = v\<close>: an existing key keeps its position, a new key goes to the end.\<close>

fun dict_setitem :: "string \<Rightarrow> 'v \<Rightarrow> 'v dict \<Rightarrow> 'v dict" where
  "dict_setitem k v [] = [(k, v)]"
| "dict_setitem k v ((k', v') # d) =
     (if k' = k then (k, v) # d else (k', v') # dict_setitem k v d)"

text \<open>
  The block \<open>if k in d: d[k] += 1 else: d[k] = 1\<close>, which \<open>update_analytics\<close> runs on
  \<open>model_usage\<close> and on \<open>user_activity\<close>.
\<close>

definition dict_increment :: "string \<Rightarrow> int dict \<Rightarrow> int dict" where
  "dict_increment k d =
     (case dict_getitem k d of
        Some c \<Rightarrow> dict_setitem k (c + 1) d
      | None \<Rightarrow> dict_setitem k 1 d)"

datatype exn = ZeroDivisionError | TypeError

text \<open>The dictionary \<open>conversation_data\<close> that \<open>save_conversation\<close> builds.\<close>

record conversation_data =
  username :: string
  timestamp :: string
  prompt :: string
  response :: string
  model :: string
  response_time :: rat
  prompt_tokens :: int
  response_tokens :: int
  total_tokens :: int

text \<open>The dictionary held in \<open>analytics_data.json\<close>.\<close>

record analytics =
  total_conversations :: int
  total_tokens :: int
  avg_response_time :: rat
  model_usage :: "int dict"
  user_activity :: "int dict"

text \<open>
  The file \<open>ANALYTICS_FILE\<close>. Its content is a document of type \<open>'doc\<close>; \<open>json.dump\<close>
  and \<open>json.load\<close> are parameters \<open>enc\<close> and \<open>dec\<close> of the functions below, \<open>dec\<close>
  returning \<open>None\<close> where \<open>json.load\<close> raises.
\<close>

datatype 'doc stats_file = Missing | Unreadable | Content 'doc

text \<open>
  What happens when the file is opened for writing and the document is dumped into it:
  the write completes; or \<open>open\<close> raises and the file is left as it was; or the dump
  raises after \<open>open\<close> has truncated the file, leaving some partial content.
\<close>

datatype 'doc write_outcome = Written | Open_failed | Partial 'doc

text \<open>The messages shown through \<open>st.error\<close>.\<close>

datatype report = Error_loading_analytics | Error_saving_analytics

definition default_analytics :: analytics where
  "default_analytics =
     \<lparr>total_conversations = 0, total_tokens = 0, avg_response_time = 0,
      model_usage = [], user_activity = []\<rparr>"

definition load_analytics :: "('doc \<Rightarrow> analytics option) \<Rightarrow> 'doc stats_file \<Rightarrow> analytics \<times> report list" where
  "load_analytics dec f =
     (case f of
        Missing \<Rightarrow> (default_analytics, [])
      | Unreadable \<Rightarrow> (default_analytics, [Error_loading_analytics])
      | Content doc \<Rightarrow>
          (case dec doc of
             Some a \<Rightarrow> (a, [])
           | None \<Rightarrow> (default_analytics, [Error_loading_analytics])))"

definition save_analytics ::
  "(analytics \<Rightarrow> 'doc) \<Rightarrow> 'doc write_outcome \<Rightarrow> analytics \<Rightarrow> 'doc stats_file \<Rightarrow> 'doc stats_file \<times> report list" where
  "save_analytics enc outcome analytics_data f =
     (case outcome of
        Written \<Rightarrow> (Content (enc analytics_data), [])
      | Open_failed \<Rightarrow> (f, [Error_saving_analytics])
      | Partial doc \<Rightarrow> (Content doc, [Error_saving_analytics]))"

text \<open>
  Python's \<open>float\<close> is the IEEE 754 binary64 format. A value of that type is kept as the
  rational number that it is; an arithmetic operation on floats returns the exact result
  rounded to the nearest float, a tie going to the float with the even significand,
  which is what \<open>float_of\<close> does to the exact result. \<open>round_half_even\<close> rounds to the
  nearest integer in that way, \<open>exponent x\<close> is the integer \<open>e\<close> with
  \<open>2 ^ e \<le> \<bar>x\<bar> < 2 ^ (e + 1)\<close>, and the floats around \<open>x\<close> are the multiples of
  \<open>2 ^ (e - 52)\<close> (53 significant bits), or of \<open>2 ^ - 1074\<close> where \<open>x\<close> is below the
  normal range. The format has a largest finite value, just below \<open>2 ^ 1024\<close>, beyond
  which a result is \<open>inf\<close>; this model has no infinities and no \<open>nan\<close>, so it is the
  program only as long as every result stays below \<open>2 ^ 1024\<close> in absolute value.
\<close>

definition round_half_even :: "rat \<Rightarrow> int" where
  "round_half_even x =
     (let n = \<lfloor>x\<rfloor>; r = x - of_int n
      in if r < 1 / 2 then n
         else if 1 / 2 < r then n + 1
         else if even n then n else n + 1)"

definition exponent :: "rat \<Rightarrow> int" where
  "exponent x =
     (let (a, b) = quotient_of x;
          k = bitlen \<bar>a\<bar> - bitlen b
      in if 2 powi k \<le> \<bar>x\<bar> then k else k - 1)"

definition float_of :: "rat \<Rightarrow> rat" where
  "float_of x =
     (if x = 0 then 0
      else
        let e = max (exponent x - 52) (- 1074)
        in of_int (round_half_even (x / 2 powi e)) * 2 powi e)"

text \<open>
  \<open>update_analytics\<close> returns nothing; the model returns the exception that escapes it
  (if any), the file afterwards and the messages reported. The division raises when
  the incremented count is zero. The average is computed in floats: the two counts are
  converted to floats where they meet one, and the product, the sum and the quotient
  are each rounded.
\<close>

definition update_analytics ::
  "(analytics \<Rightarrow> 'doc) \<Rightarrow> ('doc \<Rightarrow> analytics option) \<Rightarrow> 'doc write_outcome \<Rightarrow>
   conversation_data \<Rightarrow> 'doc stats_file \<Rightarrow> (exn + unit) \<times> 'doc stats_file \<times> report list" where
  "update_analytics enc dec outcome cd f =
     (let (analytics, loaded) = load_analytics dec f;
          m = model cd;
          analytics = analytics\<lparr>model_usage := dict_increment m (model_usage analytics)\<rparr>;
          analytics = analytics\<lparr>total_conversations := total_conversations analytics + 1\<rparr>;
          analytics = analytics\<lparr>total_tokens :=
            total_tokens analytics + conversation_data.total_tokens cd\<rparr>;
          new_count = total_conversations analytics;
          old_avg = avg_response_time analytics;
          new_time = response_time cd
      in if new_count = 0 then (Inl ZeroDivisionError, f, loaded)
         else
           let analytics = analytics\<lparr>avg_response_time :=
                 float_of
                   (float_of (float_of (old_avg * float_of (of_int (new_count - 1))) + new_time)
                    / float_of (of_int new_count))\<rparr>;
               u = username cd;
               analytics = analytics\<lparr>user_activity := dict_increment u (user_activity analytics)\<rparr>;
               (f', saved) = save_analytics enc outcome analytics f
           in (Inr (), f', loaded @ saved))"

text \<open>
  A statistics dictionary has each key once. What is assumed of \<open>json.dump\<close> and
  \<open>json.load\<close> is that loading a dumped statistics dictionary gives it back.
\<close>

definition well_formed :: "analytics \<Rightarrow> bool" where
  "well_formed a \<longleftrightarrow>
     distinct (map fst (model_usage a)) \<and> distinct (map fst (user_activity a))"

definition json_round_trip :: "(analytics \<Rightarrow> 'doc) \<Rightarrow> ('doc \<Rightarrow> analytics option) \<Rightarrow> bool" where
  "json_round_trip enc dec \<longleftrightarrow> (\<forall>a. well_formed a \<longrightarrow> dec (enc a) = Some a)"

text \<open>
  Successive calls of \<open>update_analytics\<close>, one per conversation, each with the outcome
  of its write; an exception ends the run, as it would end the caller.
\<close>

fun update_analytics_seq ::
  "(analytics \<Rightarrow> 'doc) \<Rightarrow> ('doc \<Rightarrow> analytics option) \<Rightarrow>
   ('doc write_outcome \<times> conversation_data) list \<Rightarrow> 'doc stats_file \<Rightarrow>
   (exn + unit) \<times> 'doc stats_file \<times> report list" where
  "update_analytics_seq enc dec [] f = (Inr (), f, [])"
| "update_analytics_seq enc dec ((outcome, cd) # steps) f =
     (case update_analytics enc dec outcome cd f of
        (Inl e, f', reports) \<Rightarrow> (Inl e, f', reports)
      | (Inr u, f', reports) \<Rightarrow>
          (case update_analytics_seq enc dec steps f' of
             (r, f'', reports') \<Rightarrow> (r, f'', reports @ reports')))"

text \<open>
  Three conversations with response times 1, 2 and 3, the same model and three users;
  and the simplest documents: a document is the dictionary it holds, or \<open>None\<close> for a
  file that does not parse.
\<close>

definition example_conversation :: "string \<Rightarrow> rat \<Rightarrow> conversation_data" where
  "example_conversation u t =
     \<lparr>username = u, timestamp = ''2024-01-01 00:00:00'', prompt = ''hello'',
      response = ''hi there'', model = ''m'', response_time = t, prompt_tokens = 1,
      response_tokens = 2, total_tokens = 3\<rparr>"

definition example_conversations :: "conversation_data list" where
  "example_conversations =
     [example_conversation ''u1'' 1, example_conversation ''u2'' 2, example_conversation ''u3'' 3]"

definition example_enc :: "analytics \<Rightarrow> analytics option" where
  "example_enc a = Some a"

definition example_dec :: "analytics option \<Rightarrow> analytics option" where
  "example_dec doc = doc"

text \<open>
  The mean recomputed over the full history, as the specification has it: the exact
  arithmetic mean of the response times, and, for a history that is not empty, the
  same computed in floats as \<open>sum(ts) / len(ts)\<close> with the sum taken from the left.
\<close>

definition arithmetic_mean :: "rat list \<Rightarrow> rat" where
  "arithmetic_mean ts = (if ts = [] then 0 else sum_list ts / of_nat (length ts))"

definition recomputed_mean :: "rat list \<Rightarrow> rat" where
  "recomputed_mean ts =
     float_of (foldl (\<lambda>s t. float_of (s + t)) 0 ts / float_of (of_nat (length ts)))"

text \<open>
  Four response times, written \<open>0.1\<close>, \<open>0.1\<close>, \<open>1.4\<close> and \<open>0.1\<close> in Python: the floats
  nearest to these decimals.
\<close>

definition example_response_times :: "rat list" where
  "example_response_times =
     [float_of (1 / 10), float_of (1 / 10), float_of (14 / 10), float_of (1 / 10)]"

text \<open>
  Python's \<open>sorted(items, key=lambda x: x[1], reverse=True)\<close>: a stable sort by
  descending value, items of equal value keeping the order they had.
\<close>

definition sorted_reverse :: "int dict \<Rightarrow> int dict" where
  "sorted_reverse items = sort_key (\<lambda>x. - snd x) items"

text \<open>
  Python's \<open>round(x, ndigits)\<close> on the exact value of \<open>x\<close>: to the nearest multiple of
  \<open>10 ^ - ndigits\<close>, a tie going to the even multiple.
\<close>

definition round_py :: "rat \<Rightarrow> nat \<Rightarrow> rat" where
  "round_py x ndigits = of_int (round_half_even (x * 10 ^ ndigits)) / 10 ^ ndigits"

definition get_analytics_summary ::
  "('doc \<Rightarrow> analytics option) \<Rightarrow> 'doc stats_file \<Rightarrow> summary \<times> report list" where
  "get_analytics_summary dec f =
     (let (analytics, loaded) = load_analytics dec f;
          top_models = sorted_reverse (model_usage analytics);
          top_users = sorted_reverse (user_activity analytics)
      in (\<lparr>summary.total_conversations = total_conversations analytics,
           summary.total_tokens = total_tokens analytics,
           summary.avg_response_time = round_py (avg_response_time analytics) 2,
           top_models = take 5 top_models,
           top_users = take 5 top_users\<rparr>, loaded))"


definition count_tokens :: "string \<Rightarrow> int" where
  "count_tokens text = int (length text) div 4"

section \<open>Credentials and models (api_client.py)\<close>

text \<open>
  The environment, as far as \<open>load_api_keys\<close> reads it: \<open>env i\<close> is the value of
  \<open>OPENROUTER_API_KEY_i\<close>, \<open>None\<close> when the variable is not set.
\<close>

type_synonym environ = "nat \<Rightarrow> string option"

definition load_api_keys :: "environ \<Rightarrow> string list" where
  "load_api_keys env =
     foldl (\<lambda>api_keys i.
              case env i of
                Some key \<Rightarrow> if key \<noteq> [] then api_keys @ [key] else api_keys
              | None \<Rightarrow> api_keys)
       [] [1..<5]"

text \<open>\<open>list.index\<close>: the first position of the element, \<open>None\<close> where it raises \<open>ValueError\<close>.\<close>

fun list_index :: "'a list \<Rightarrow> 'a \<Rightarrow> nat option" where
  "list_index [] x = None"
| "list_index (y # ys) x = (if y = x then Some 0 else map_option Suc (list_index ys x))"

definition models :: "string list" where
  "models =
     [''deepseek/deepseek-chat'',
      ''google/gemini-2.0-flash-exp:free'',
      ''01-ai/yi-large'',
      ''qwen/qwen-2.5-72b-instruct'']"

text \<open>
  The body of \<open>get_model_for_api_key\<close> after its first line, with the loaded list as an
  argument.
\<close>

definition get_model_for_api_key_from :: "string list \<Rightarrow> string \<Rightarrow> string" where
  "get_model_for_api_key_from api_keys api_key =
     (if api_keys = [] then ''deepseek/deepseek-chat''
      else
        (case list_index api_keys api_key of
           None \<Rightarrow> ''deepseek/deepseek-chat''
         | Some key_index \<Rightarrow>
             if key_index < length models then models ! key_index else models ! 0))"

definition get_model_for_api_key :: "environ \<Rightarrow> string \<Rightarrow> string" where
  "get_model_for_api_key env api_key = get_model_for_api_key_from (load_api_keys env) api_key"

text \<open>
  What comes back from \<open>requests.post\<close> and the reading of its body: a
  \<open>RequestException\<close>, any other exception, a body without choices, or the content of
  the first choice (\<open>None\<close> for a JSON null).
\<close>

datatype reply = Request_exception string | Other_exception string | No_choices | Choice "string option"

definition generate_response ::
  "(request \<Rightarrow> reply) \<Rightarrow> environ \<Rightarrow> string \<Rightarrow> string \<Rightarrow> message list option \<Rightarrow>
   string option \<Rightarrow> bool \<Rightarrow> request list \<Rightarrow> api_result \<times> request list" where
  "generate_response provider env user_prompt api_key conversation_history system_prompt streaming sent =
     (let selected_model = get_model_for_api_key env api_key;
          messages = [];
          messages =
            (case system_prompt of
               Some sp \<Rightarrow>
                 if sp \<noteq> [] then messages @ [\<lparr>role = ''system'', content = sp\<rparr>] else messages
             | None \<Rightarrow> messages);
          messages =
            (case conversation_history of
               Some h \<Rightarrow> if h \<noteq> [] then messages @ h else messages
             | None \<Rightarrow> messages);
          messages = messages @ [\<lparr>role = ''user'', content = user_prompt\<rparr>];
          data = \<lparr>request.model = selected_model, messages = messages, max_tokens = 4000,
                  temperature = 9 / 10, stream = False\<rparr>
      in (case provider data of
            Choice c \<Rightarrow> \<lparr>success = True, content = c, error = None\<rparr>
          | No_choices \<Rightarrow>
              \<lparr>success = False, content = None, error = Some ''No response content received''\<rparr>
          | Request_exception e \<Rightarrow>
              \<lparr>success = False, content = None, error = Some (''Request error: '' @ e)\<rparr>
          | Other_exception e \<Rightarrow>
              \<lparr>success = False, content = None, error = Some (''Unexpected error: '' @ e)\<rparr>,
          sent @ [data]))"

section \<open>Conversation context (ai_features.py)\<close>

text \<open>
  The two keys of \<open>st.session_state\<close> that the conversation context uses; \<open>None\<close> is a key
  not in the session state.
\<close>

record session_state =
  conversation_history :: "message list option"
  system_prompt :: "string option"

definition initialize_conversation_context :: "session_state \<Rightarrow> session_state" where
  "initialize_conversation_context s =
     (let s = (if conversation_history s = None then s\<lparr>conversation_history := Some []\<rparr> else s)
      in if system_prompt s = None
         then s\<lparr>system_prompt := Some ''You are a helpful AI assistant.''\<rparr> else s)"

definition add_message_to_context :: "string \<Rightarrow> string \<Rightarrow> session_state \<Rightarrow> session_state" where
  "add_message_to_context r c s =
     (let s = (if conversation_history s = None then initialize_conversation_context s else s)
      in s\<lparr>conversation_history :=
           Some ((case conversation_history s of Some h \<Rightarrow> h | None \<Rightarrow> [])
                 @ [\<lparr>role = r, content = c\<rparr>])\<rparr>)"

definition get_conversation_context :: "session_state \<Rightarrow> message list \<times> session_state" where
  "get_conversation_context s =
     (let s = (if conversation_history s = None then initialize_conversation_context s else s)
      in (case conversation_history s of Some h \<Rightarrow> h | None \<Rightarrow> [], s))"

definition clear_conversation_context :: "session_state \<Rightarrow> session_state" where
  "clear_conversation_context s = s\<lparr>conversation_history := Some []\<rparr>"

definition set_system_prompt :: "string \<Rightarrow> session_state \<Rightarrow> session_state" where
  "set_system_prompt p s = s\<lparr>system_prompt := Some p\<rparr>"

definition get_system_prompt :: "session_state \<Rightarrow> string \<times> session_state" where
  "get_system_prompt s =
     (let s = (if system_prompt s = None then initialize_conversation_context s else s)
      in (case system_prompt s of Some p \<Rightarrow> p | None \<Rightarrow> [], s))"

text \<open>
  \<open>elapsed\<close> is the time measured around the call. The session state and the list of
  requests posted so far are passed in and returned. \<open>count_tokens\<close> of a content that
  is \<open>None\<close> raises \<open>TypeError\<close> (\<open>len(None)\<close>), after the context has been updated.
\<close>

definition generate_response_with_context ::
  "(request \<Rightarrow> reply) \<Rightarrow> environ \<Rightarrow> rat \<Rightarrow> string \<Rightarrow> string \<Rightarrow> bool \<Rightarrow> bool \<Rightarrow>
   session_state \<Rightarrow> request list \<Rightarrow> (exn + context_result) \<times> session_state \<times> request list" where
  "generate_response_with_context provider env elapsed user_prompt api_key include_context streaming s sent =
     (let s = add_message_to_context ''user'' user_prompt s;
          m = get_model_for_api_key env api_key
      in if streaming
         then (Inr \<lparr>success = False, content = None,
                    error = Some ''Streaming is not supported in generate_response_with_context'',
                    context_result.response_time = 0,
                    context_result.prompt_tokens = count_tokens user_prompt,
                    context_result.response_tokens = 0, context_result.model = m\<rparr>, s, sent)
         else
           let (result, s, sent) =
                 (if include_context
                  then
                    let (context, s) = get_conversation_context s;
                        (sp, s) = get_system_prompt s;
                        (result, sent) =
                          generate_response provider env user_prompt api_key
                            (Some (butlast context)) (Some sp) False sent
                    in (result, s, sent)
                  else
                    let (result, sent) =
                          generate_response provider env user_prompt api_key None None False sent
                    in (result, s, sent));
               s = (case content result of
                      Some c \<Rightarrow>
                        if success result \<and> c \<noteq> [] then add_message_to_context ''assistant'' c s
                        else s
                    | None \<Rightarrow> s)
           in (case content result of
                 None \<Rightarrow> (Inl TypeError, s, sent)
               | Some c \<Rightarrow>
                   (Inr \<lparr>success = success result, content = content result,
                         error = error result, context_result.response_time = elapsed,
                         context_result.prompt_tokens = count_tokens user_prompt,
                         context_result.response_tokens = count_tokens c,
                         context_result.model = m\<rparr>, s, sent)))"

text \<open>
  What \<open>get_conversation_context\<close> and \<open>get_system_prompt\<close> return in a session state,
  and the system message that \<open>generate_response\<close> puts first for a system prompt.
\<close>

definition current_history :: "session_state \<Rightarrow> message list" where
  "current_history s = fst (get_conversation_context s)"

definition current_system_prompt :: "session_state \<Rightarrow> string" where
  "current_system_prompt s = fst (get_system_prompt s)"

definition system_message :: "string \<Rightarrow> message list" where
  "system_message sp = (if sp \<noteq> [] then [\<lparr>role = ''system'', content = sp\<rparr>] else [])"



section \<open>Properties of the usage statistics\<close>

lemma getitem_None_iff: "dict_getitem k d = None \<longleftrightarrow> k \<notin> fst ` set d"
  by (induction d) force+

lemma keys_dict_setitem_Some:
  "dict_getitem k d = Some c \<Longrightarrow> map fst (dict_setitem k v d) = map fst d"
  by (induction d) (auto split: if_splits)

lemma keys_dict_setitem_None:
  "dict_getitem k d = None \<Longrightarrow> map fst (dict_setitem k v d) = map fst d @ [k]"
  by (induction d) (auto split: if_splits)

lemma distinct_dict_increment:
  assumes "distinct (map fst d)"
  shows "distinct (map fst (dict_increment k d))"
proof (cases "dict_getitem k d")
  case None
  then have "k \<notin> fst ` set d" by (simp add: getitem_None_iff)
  with assms show ?thesis
    by (simp add: dict_increment_def None keys_dict_setitem_None)
next
  case (Some c)
  with assms show ?thesis
    by (simp add: dict_increment_def keys_dict_setitem_Some)
qed

lemma sum_dict_setitem_Some:
  fixes d :: "int dict"
  shows "dict_getitem k d = Some c \<Longrightarrow>
    sum_list (map snd (dict_setitem k v d)) = sum_list (map snd d) - c + v"
  by (induction d) (auto split: if_splits)

lemma sum_dict_setitem_None:
  fixes d :: "int dict"
  shows "dict_getitem k d = None \<Longrightarrow>
    sum_list (map snd (dict_setitem k v d)) = sum_list (map snd d) + v"
  by (induction d) (auto split: if_splits)

lemma sum_dict_increment:
  "sum_list (map snd (dict_increment k d)) = sum_list (map snd d) + 1"
  by (auto simp: dict_increment_def sum_dict_setitem_Some sum_dict_setitem_None
      split: option.splits)

lemma example_round_trip: "json_round_trip example_enc example_dec"
  by (simp add: json_round_trip_def example_enc_def example_dec_def)

lemma load_Content_enc:
  assumes "json_round_trip enc dec" and "well_formed a"
  shows "load_analytics dec (Content (enc a)) = (a, [])"
  using assms by (simp add: json_round_trip_def load_analytics_def)

text \<open>One call whose write completes: the file then holds the updated dictionary.\<close>

lemma update_analytics_Written:
  assumes "load_analytics dec f = (a, loaded)" and "total_conversations a \<noteq> - 1"
  shows "update_analytics enc dec Written cd f =
    (Inr (),
     Content (enc
       \<lparr>total_conversations = total_conversations a + 1,
        total_tokens = total_tokens a + conversation_data.total_tokens cd,
        avg_response_time =
          float_of
            (float_of (float_of (avg_response_time a * float_of (of_int (total_conversations a)))
               + response_time cd)
             / float_of (of_int (total_conversations a + 1))),
        model_usage = dict_increment (model cd) (model_usage a),
        user_activity = dict_increment (username cd) (user_activity a)\<rparr>),
     loaded)"
  using assms
  by (cases a) (simp add: update_analytics_def save_analytics_def Let_def)

text \<open>
  A run of calls whose writes all complete, from a file that holds a well-formed
  dictionary with a count that is not negative: no call raises, and the count and the
  two usage tables move with the records.
\<close>

lemma update_analytics_seq_Written:
  assumes rt: "json_round_trip enc dec"
  shows "well_formed (fst (load_analytics dec f)) \<Longrightarrow>
         0 \<le> total_conversations (fst (load_analytics dec f)) \<Longrightarrow>
    \<exists>f' reports.
      update_analytics_seq enc dec (map (Pair Written) cds) f = (Inr (), f', reports) \<and>
      well_formed (fst (load_analytics dec f')) \<and>
      total_conversations (fst (load_analytics dec f')) =
        total_conversations (fst (load_analytics dec f)) + int (length cds) \<and>
      sum_list (map snd (model_usage (fst (load_analytics dec f')))) =
        sum_list (map snd (model_usage (fst (load_analytics dec f)))) + int (length cds) \<and>
      sum_list (map snd (user_activity (fst (load_analytics dec f')))) =
        sum_list (map snd (user_activity (fst (load_analytics dec f)))) + int (length cds)"
proof (induction cds arbitrary: f)
  case Nil
  then show ?case by simp
next
  case (Cons cd cds)
  obtain a loaded where load: "load_analytics dec f = (a, loaded)"
    by (cases "load_analytics dec f")
  from Cons.prems load have wf: "well_formed a" and nonneg: "0 \<le> total_conversations a"
    by simp_all
  define a1 where "a1 =
    \<lparr>total_conversations = total_conversations a + 1,
     total_tokens = total_tokens a + conversation_data.total_tokens cd,
     avg_response_time =
       float_of
         (float_of (float_of (avg_response_time a * float_of (of_int (total_conversations a)))
            + response_time cd)
          / float_of (of_int (total_conversations a + 1))),
     model_usage = dict_increment (model cd) (model_usage a),
     user_activity = dict_increment (username cd) (user_activity a)\<rparr>"
  from nonneg have "total_conversations a \<noteq> - 1" by simp
  from update_analytics_Written[OF load this, of enc cd]
  have step: "update_analytics enc dec Written cd f = (Inr (), Content (enc a1), loaded)"
    by (simp add: a1_def)
  from wf have wf1: "well_formed a1"
    by (simp add: well_formed_def a1_def distinct_dict_increment)
  have load1: "load_analytics dec (Content (enc a1)) = (a1, [])"
    by (rule load_Content_enc[OF rt wf1])
  have nonneg1: "0 \<le> total_conversations a1"
    using nonneg by (simp add: a1_def)
  from Cons.IH[of "Content (enc a1)"] wf1 nonneg1 load1
  obtain f' reports where
    run: "update_analytics_seq enc dec (map (Pair Written) cds) (Content (enc a1)) = (Inr (), f', reports)"
    and wf': "well_formed (fst (load_analytics dec f'))"
    and tc': "total_conversations (fst (load_analytics dec f')) = total_conversations a1 + int (length cds)"
    and mu': "sum_list (map snd (model_usage (fst (load_analytics dec f')))) =
        sum_list (map snd (model_usage a1)) + int (length cds)"
    and ua': "sum_list (map snd (user_activity (fst (load_analytics dec f')))) =
        sum_list (map snd (user_activity a1)) + int (length cds)"
    by auto
  have "update_analytics_seq enc dec (map (Pair Written) (cd # cds)) f = (Inr (), f', loaded @ reports)"
    using step run by simp
  moreover have "total_conversations (fst (load_analytics dec f')) =
      total_conversations (fst (load_analytics dec f)) + int (length (cd # cds))"
    using tc' load by (simp add: a1_def)
  moreover have "sum_list (map snd (model_usage (fst (load_analytics dec f')))) =
        sum_list (map snd (model_usage (fst (load_analytics dec f)))) + int (length (cd # cds))"
    using mu' load by (simp add: a1_def sum_dict_increment)
  moreover have "sum_list (map snd (user_activity (fst (load_analytics dec f')))) =
        sum_list (map snd (user_activity (fst (load_analytics dec f)))) + int (length (cd # cds))"
    using ua' load by (simp add: a1_def sum_dict_increment)
  ultimately show ?case using wf' by blast
qed

text \<open>
  C2. Starting with no statistics file, after any sequence of applied conversations,
  each persisted, the counts of \<open>model_usage\<close> add up to \<open>total_conversations\<close>, and so do
  the counts of \<open>user_activity\<close>; \<open>total_conversations\<close> is the number of conversations
  applied.
\<close>

theorem usage_counts_sum_to_total:
  assumes "json_round_trip enc dec"
  shows "\<exists>f reports.
    update_analytics_seq enc dec (map (Pair Written) cds) Missing = (Inr (), f, reports) \<and>
    sum_list (map snd (model_usage (fst (load_analytics dec f)))) =
      total_conversations (fst (load_analytics dec f)) \<and>
    sum_list (map snd (user_activity (fst (load_analytics dec f)))) =
      total_conversations (fst (load_analytics dec f)) \<and>
    total_conversations (fst (load_analytics dec f)) = int (length cds)"
proof -
  have start: "load_analytics dec Missing = (default_analytics, [])"
    by (simp add: load_analytics_def)
  have "well_formed (fst (load_analytics dec Missing))"
    and "0 \<le> total_conversations (fst (load_analytics dec Missing))"
    by (simp_all add: start well_formed_def default_analytics_def)
  from update_analytics_seq_Written[OF assms this, of cds]
  show ?thesis
    by (auto simp: start default_analytics_def)
qed

theorem usage_counts_sum_to_total_witness:
  "json_round_trip example_enc example_dec \<and>
   (\<exists>f reports.
      update_analytics_seq example_enc example_dec
        (map (Pair Written) example_conversations) Missing = (Inr (), f, reports) \<and>
      sum_list (map snd (model_usage (fst (load_analytics example_dec f)))) = 3 \<and>
      sum_list (map snd (user_activity (fst (load_analytics example_dec f)))) = 3 \<and>
      total_conversations (fst (load_analytics example_dec f)) = 3)"
proof -
  have len: "int (length example_conversations) = 3"
    by (simp add: example_conversations_def)
  from usage_counts_sum_to_total[OF example_round_trip, of example_conversations]
    example_round_trip
  show ?thesis by (auto simp: len)
qed

text \<open>
  C7. Loading when there is no statistics file, or when the file cannot be read or
  its content does not parse, returns the zero-valued statistics (both counts zero, the
  average zero, both usage tables empty) as an ordinary result; in the last two cases
  the error is reported, and nothing is raised.
\<close>

theorem load_analytics_falls_back_to_default:
  "load_analytics dec Missing = (default_analytics, []) \<and>
   load_analytics dec Unreadable = (default_analytics, [Error_loading_analytics]) \<and>
   (dec doc = None \<longrightarrow>
      load_analytics dec (Content doc) = (default_analytics, [Error_loading_analytics])) \<and>
   total_conversations default_analytics = 0 \<and>
   total_tokens default_analytics = 0 \<and>
   avg_response_time default_analytics = 0 \<and>
   model_usage default_analytics = [] \<and>
   user_activity default_analytics = []"
  by (simp add: load_analytics_def default_analytics_def)

theorem load_analytics_falls_back_to_default_witness:
  "example_dec None = None \<and>
   load_analytics example_dec (Content None) = (default_analytics, [Error_loading_analytics]) \<and>
   total_conversations (fst (load_analytics example_dec (Content None))) = 0 \<and>
   model_usage (fst (load_analytics example_dec (Content None))) = []"
proof -
  have none: "example_dec None = None" by (simp add: example_dec_def)
  from load_analytics_falls_back_to_default[of example_dec None] none
  show ?thesis by simp
qed

text \<open>One call whose write fails: what the file holds afterwards does not depend on the record.\<close>

lemma update_analytics_not_Written:
  assumes "load_analytics dec f = (a, loaded)" and "total_conversations a \<noteq> - 1"
    and "outcome \<noteq> Written"
  shows "update_analytics enc dec outcome cd f =
    (Inr (), (case outcome of Partial doc \<Rightarrow> Content doc | _ \<Rightarrow> f),
     loaded @ [Error_saving_analytics])"
  using assms
  by (cases a; cases outcome) (simp_all add: update_analytics_def save_analytics_def Let_def)

text \<open>
  C4, as stated, fails. The claim has a later call build on the statistics as changed
  by a call whose write failed. \<open>update_analytics\<close> keeps no statistics between calls:
  each call starts from \<open>load_analytics\<close>. With no statistics file, a first call whose
  write fails and a second whose write completes leave statistics that count one
  conversation, not the two that the same calls leave when both writes complete.
\<close>

theorem failed_save_is_forgotten_counterexample:
  "fst (load_analytics example_dec
     (fst (snd (update_analytics_seq example_enc example_dec
        [(Open_failed, example_conversation ''u1'' 1),
         (Written, example_conversation ''u2'' 2)] Missing)))) \<noteq>
   fst (load_analytics example_dec
     (fst (snd (update_analytics_seq example_enc example_dec
        [(Written, example_conversation ''u1'' 1),
         (Written, example_conversation ''u2'' 2)] Missing))))"
  by (simp add: update_analytics_def save_analytics_def load_analytics_def Let_def
      default_analytics_def example_enc_def example_dec_def example_conversation_def
      dict_increment_def)

text \<open>
  C4, amended. When the write fails, the failure is reported through \<open>st.error\<close> and
  nothing is raised; the changed statistics are dropped at the end of the call. The file
  is left as it was when it could not be opened, or with the partial content; so after
  a write that could not open the file, the following calls end with the file and the
  result they would have had without the failed call.
\<close>

theorem failed_save_is_reported_and_forgotten:
  assumes "outcome \<noteq> Written"
    and "total_conversations (fst (load_analytics dec f)) \<noteq> - 1"
  shows "update_analytics enc dec outcome cd f =
           (Inr (), (case outcome of Partial doc \<Rightarrow> Content doc | _ \<Rightarrow> f),
            snd (load_analytics dec f) @ [Error_saving_analytics]) \<and>
         fst (snd (update_analytics_seq enc dec ((Open_failed, cd) # steps) f)) =
           fst (snd (update_analytics_seq enc dec steps f)) \<and>
         fst (update_analytics_seq enc dec ((Open_failed, cd) # steps) f) =
           fst (update_analytics_seq enc dec steps f)"
proof -
  obtain a loaded where load: "load_analytics dec f = (a, loaded)"
    by (cases "load_analytics dec f")
  with assms(2) have ok: "total_conversations a \<noteq> - 1" by simp
  have one: "update_analytics enc dec outcome cd f =
           (Inr (), (case outcome of Partial doc \<Rightarrow> Content doc | _ \<Rightarrow> f),
            snd (load_analytics dec f) @ [Error_saving_analytics])"
    using update_analytics_not_Written[OF load ok assms(1), of enc cd] load by simp
  have "update_analytics enc dec Open_failed cd f = (Inr (), f, loaded @ [Error_saving_analytics])"
    using update_analytics_not_Written[OF load ok, of Open_failed enc cd] by simp
  then have two: "fst (snd (update_analytics_seq enc dec ((Open_failed, cd) # steps) f)) =
           fst (snd (update_analytics_seq enc dec steps f))"
    and three: "fst (update_analytics_seq enc dec ((Open_failed, cd) # steps) f) =
           fst (update_analytics_seq enc dec steps f)"
    by (simp_all split: prod.splits)
  from one two three show ?thesis by blast
qed

theorem failed_save_is_reported_and_forgotten_witness:
  "Open_failed \<noteq> (Written :: analytics option write_outcome) \<and>
   total_conversations (fst (load_analytics example_dec Missing)) \<noteq> - 1 \<and>
   update_analytics example_enc example_dec Open_failed (example_conversation ''u1'' 1) Missing =
     (Inr (), Missing, [Error_saving_analytics]) \<and>
   fst (snd (update_analytics_seq example_enc example_dec
      [(Open_failed, example_conversation ''u1'' 1), (Written, example_conversation ''u2'' 2)]
      Missing)) =
   fst (snd (update_analytics_seq example_enc example_dec
      [(Written, example_conversation ''u2'' 2)] Missing))"
proof -
  have h1: "Open_failed \<noteq> (Written :: analytics option write_outcome)" by simp
  have h2: "total_conversations (fst (load_analytics example_dec Missing)) \<noteq> - 1"
    by (simp add: load_analytics_def default_analytics_def)
  have l: "snd (load_analytics example_dec Missing) = []"
    by (simp add: load_analytics_def)
  from failed_save_is_reported_and_forgotten[OF h1 h2, of example_enc
      "example_conversation ''u1'' 1" "[(Written, example_conversation ''u2'' 2)]"]
  show ?thesis using h1 h2 by (simp add: l del: update_analytics_seq.simps)
qed

text \<open>Rounding moves a number by at most half a unit.\<close>

lemma round_half_even_close: "\<bar>of_int (round_half_even x) - x\<bar> \<le> 1 / 2"
proof -
  define r where "r = x - of_int \<lfloor>x\<rfloor>"
  have r: "0 \<le> r" "r < 1" unfolding r_def by linarith+
  have x: "x = of_int \<lfloor>x\<rfloor> + r" by (simp add: r_def)
  consider "r < 1 / 2" | "1 / 2 < r" | "r = 1 / 2" by linarith
  then show ?thesis
  proof cases
    case 1
    then have "round_half_even x = \<lfloor>x\<rfloor>"
      by (simp add: round_half_even_def r_def Let_def)
    with 1 r x show ?thesis by linarith
  next
    case 2
    then have "round_half_even x = \<lfloor>x\<rfloor> + 1"
      by (simp add: round_half_even_def r_def Let_def)
    with 2 r x show ?thesis by linarith
  next
    case 3
    then have "round_half_even x = \<lfloor>x\<rfloor> \<or> round_half_even x = \<lfloor>x\<rfloor> + 1"
      by (simp add: round_half_even_def r_def Let_def)
    with 3 x show ?thesis by linarith
  qed
qed


text \<open>\<open>sorted_reverse\<close> permutes, orders by descending count and is stable.\<close>

lemma sorted_reverse_props:
  "mset (sorted_reverse items) = mset items"
  "sorted_wrt (\<lambda>x y. snd y \<le> snd x) (sorted_reverse items)"
  "filter (\<lambda>x. snd x = c) (sorted_reverse items) = filter (\<lambda>x. snd x = c) items"
proof -
  show "mset (sorted_reverse items) = mset items" by (simp add: sorted_reverse_def)
  have "sorted (map (\<lambda>x. - snd x) (sorted_reverse items))"
    by (simp add: sorted_reverse_def)
  then show "sorted_wrt (\<lambda>x y. snd y \<le> snd x) (sorted_reverse items)"
    by (simp add: sorted_map sorted_wrt_map)
  have "filter (\<lambda>x. - snd x = - c) (sort_key (\<lambda>x. - snd x) items) = filter (\<lambda>x. - snd x = - c) items"
    by (rule sort_key_stable)
  then show "filter (\<lambda>x. snd x = c) (sorted_reverse items) = filter (\<lambda>x. snd x = c) items"
    by (simp add: sorted_reverse_def)
qed


lemma get_analytics_summary_eq:
  "fst (get_analytics_summary dec f) =
     \<lparr>summary.total_conversations = total_conversations (fst (load_analytics dec f)),
      summary.total_tokens = total_tokens (fst (load_analytics dec f)),
      summary.avg_response_time = round_py (avg_response_time (fst (load_analytics dec f))) 2,
      top_models = take 5 (sorted_reverse (model_usage (fst (load_analytics dec f)))),
      top_users = take 5 (sorted_reverse (user_activity (fst (load_analytics dec f))))\<rparr>"
  by (simp add: get_analytics_summary_def Let_def split: prod.splits)

text \<open>
  C8. The summary returns the two totals of the loaded statistics, and as top models
  and top users the first five entries of the usage tables arranged by descending
  count: each arrangement holds the same entries as its table, counts never increase
  along it, and the entries of any one count stand in the order they have in the table
  (the insertion order of the dictionary), whatever their names.
\<close>

theorem summary_top_five_by_descending_count:
  "\<exists>ms us.
     top_models (fst (get_analytics_summary dec f)) = take 5 ms \<and>
     mset ms = mset (model_usage (fst (load_analytics dec f))) \<and>
     sorted_wrt (\<lambda>x y. snd y \<le> snd x) ms \<and>
     (\<forall>c. filter (\<lambda>x. snd x = c) ms =
          filter (\<lambda>x. snd x = c) (model_usage (fst (load_analytics dec f)))) \<and>
     top_users (fst (get_analytics_summary dec f)) = take 5 us \<and>
     mset us = mset (user_activity (fst (load_analytics dec f))) \<and>
     sorted_wrt (\<lambda>x y. snd y \<le> snd x) us \<and>
     (\<forall>c. filter (\<lambda>x. snd x = c) us =
          filter (\<lambda>x. snd x = c) (user_activity (fst (load_analytics dec f)))) \<and>
     summary.total_conversations (fst (get_analytics_summary dec f)) =
       total_conversations (fst (load_analytics dec f)) \<and>
     summary.total_tokens (fst (get_analytics_summary dec f)) =
       total_tokens (fst (load_analytics dec f))"
proof (intro exI conjI)
  show "top_models (fst (get_analytics_summary dec f)) =
      take 5 (sorted_reverse (model_usage (fst (load_analytics dec f))))"
    by (simp add: get_analytics_summary_eq)
  show "top_users (fst (get_analytics_summary dec f)) =
      take 5 (sorted_reverse (user_activity (fst (load_analytics dec f))))"
    by (simp add: get_analytics_summary_eq)
qed (simp_all add: sorted_reverse_props get_analytics_summary_eq)



section \<open>Properties of the float arithmetic\<close>

text \<open>The power of two that \<open>exponent\<close> returns is not above the number.\<close>

lemma exponent_le:
  assumes "x \<noteq> 0"
  shows "2 powi exponent x \<le> \<bar>x\<bar>"
proof -
  obtain a b where q: "quotient_of x = (a, b)" by (cases "quotient_of x")
  then have b: "0 < b" and x: "x = of_int a / of_int b"
    using quotient_of_denom_pos quotient_of_div by blast+
  from assms x have a: "0 < \<bar>a\<bar>" by auto
  define k where "k = bitlen \<bar>a\<bar> - bitlen b"
  have e: "exponent x = (if 2 powi k \<le> \<bar>x\<bar> then k else k - 1)"
    by (simp add: exponent_def q k_def Let_def)
  show ?thesis
  proof (cases "2 powi k \<le> \<bar>x\<bar>")
    case True
    with e show ?thesis by simp
  next
    case False
    have la: "1 \<le> bitlen \<bar>a\<bar>" and lb: "1 \<le> bitlen b"
      using a b by (simp_all add: bitlen_alt_def)
    have "(2::int) ^ nat (bitlen \<bar>a\<bar> - 1) \<le> \<bar>a\<bar>" using bitlen_bounds[OF a] by simp
    then have "(of_int ((2::int) ^ nat (bitlen \<bar>a\<bar> - 1)) :: rat) \<le> of_int \<bar>a\<bar>"
      by (simp only: of_int_le_iff)
    then have 1: "(2::rat) powi (bitlen \<bar>a\<bar> - 1) \<le> of_int \<bar>a\<bar>"
      using la by (simp add: power_int_def)
    have "b < 2 ^ nat (bitlen b)" using bitlen_bounds[OF b] by simp
    then have "(of_int b :: rat) < of_int ((2::int) ^ nat (bitlen b))"
      by (simp only: of_int_less_iff)
    then have 2: "(of_int b :: rat) \<le> 2 powi (bitlen b)"
      using lb by (simp add: power_int_def)
    have "k - 1 = (bitlen \<bar>a\<bar> - 1) - bitlen b" by (simp add: k_def)
    moreover have "(2::rat) powi ((bitlen \<bar>a\<bar> - 1) - bitlen b) =
        2 powi (bitlen \<bar>a\<bar> - 1) / 2 powi (bitlen b)"
      by (rule power_int_diff) simp
    ultimately have "(2::rat) powi (k - 1) = 2 powi (bitlen \<bar>a\<bar> - 1) / 2 powi (bitlen b)"
      by (simp only:)
    also have "\<dots> \<le> of_int \<bar>a\<bar> / of_int b"
      using 1 2 b a by (intro frac_le) simp_all
    also have "\<dots> = \<bar>x\<bar>" using b by (simp add: x abs_divide)
    finally show ?thesis using e False by simp
  qed
qed

lemma float_of_error: "\<bar>float_of x - x\<bar> \<le> \<bar>x\<bar> / 2 ^ 53 + 1 / 2 ^ 1075"
proof (cases "x = 0")
  case True
  then show ?thesis by (simp add: float_of_def)
next
  case False
  define e where "e = max (exponent x - 52) (- 1074)"
  define p :: rat where "p = 2 powi e"
  have p: "0 < p" by (simp add: p_def zero_less_power_int)
  have f: "float_of x = of_int (round_half_even (x / p)) * p"
    using False by (simp add: float_of_def e_def p_def Let_def)
  have "float_of x - x = (of_int (round_half_even (x / p)) - x / p) * p"
    using p by (simp add: f field_simps)
  then have "\<bar>float_of x - x\<bar> = \<bar>of_int (round_half_even (x / p)) - x / p\<bar> * p"
    using p by (simp add: abs_mult)
  also have "\<dots> \<le> 1 / 2 * p"
    using round_half_even_close[of "x / p"] p by (intro mult_right_mono) simp_all
  finally have err: "\<bar>float_of x - x\<bar> \<le> p / 2" by simp
  show ?thesis
  proof (cases "- 1074 \<le> exponent x - 52")
    case True
    then have "e = exponent x - 52" by (simp add: e_def)
    then have "p = 2 powi exponent x / 2 ^ 52"
      by (simp add: p_def power_int_diff)
    then have "p / 2 = 2 powi exponent x / 2 ^ 53" by simp
    also have "\<dots> \<le> \<bar>x\<bar> / 2 ^ 53"
      using exponent_le[OF False] by (simp add: divide_right_mono)
    finally show ?thesis using err by simp
  next
    case False
    then have "e = - 1074" by (simp add: e_def)
    then have "p = 1 / 2 ^ 1074" by (simp add: p_def power_int_minus inverse_eq_divide)
    then have "p / 2 = 1 / 2 ^ 1075" by simp
    moreover have "0 \<le> \<bar>x\<bar> / 2 ^ 53" by simp
    ultimately show ?thesis using err by linarith
  qed
qed

lemma round_half_even_of_int: "round_half_even (of_int n) = n"
  by (simp add: round_half_even_def)

lemma float_of_of_int:
  assumes "\<bar>n\<bar> \<le> 2 ^ 53"
  shows "float_of (of_int n) = of_int n"
proof (cases "n = 0")
  case True
  then show ?thesis by (simp add: float_of_def)
next
  case False
  define x :: rat where "x = of_int n"
  have x0: "x \<noteq> 0" using False by (simp add: x_def)
  have ax: "\<bar>x\<bar> \<le> 2 ^ 53"
  proof -
    have "(of_int \<bar>n\<bar> :: rat) \<le> of_int (2 ^ 53)" using assms by (simp only: of_int_le_iff)
    then show ?thesis by (simp add: x_def)
  qed
  define e where "e = max (exponent x - 52) (- 1074)"
  have "exponent x \<le> 53"
  proof (rule ccontr)
    assume "\<not> exponent x \<le> 53"
    then have "54 \<le> exponent x" by simp
    then have "(2::rat) powi 54 \<le> 2 powi exponent x"
      by (intro power_int_increasing) simp_all
    also have "\<dots> \<le> \<bar>x\<bar>" by (rule exponent_le[OF x0])
    finally show False using ax by (simp add: power_int_def)
  qed
  then have e1: "e \<le> 1" by (simp add: e_def)
  have "\<exists>m. x / 2 powi e = of_int m"
  proof (cases "e \<le> 0")
    case True
    then have "(2::rat) powi e = 1 / 2 ^ nat (- e)"
      by (simp add: power_int_def inverse_eq_divide power_one_over)
    then have "x / 2 powi e = of_int (n * 2 ^ nat (- e))" by (simp add: x_def)
    then show ?thesis by blast
  next
    case False
    with e1 have e: "e = 1" by simp
    then have "exponent x = 53" using \<open>exponent x \<le> 53\<close> by (simp add: e_def max_def split: if_splits)
    then have "(2::rat) powi 53 \<le> \<bar>x\<bar>" using exponent_le[OF x0] by simp
    with ax have "\<bar>x\<bar> = 2 ^ 53" by (simp add: power_int_def)
    then have "\<bar>n\<bar> = 2 ^ 53"
    proof -
      assume "\<bar>x\<bar> = 2 ^ 53"
      then have "(of_int \<bar>n\<bar> :: rat) = of_int (2 ^ 53)" by (simp add: x_def)
      then show ?thesis by (simp only: of_int_eq_iff)
    qed
    then have "even \<bar>n\<bar>" by simp
    then have "n = 2 * (n div 2)" by simp
    then have "x = 2 * of_int (n div 2)"
      unfolding x_def by (metis of_int_mult of_int_numeral)
    then have "x / 2 powi e = of_int (n div 2)" by (simp add: e)
    then show ?thesis by blast
  qed
  then obtain m where m: "x / 2 powi e = of_int m" by blast
  have "float_of x = of_int (round_half_even (x / 2 powi e)) * 2 powi e"
    using x0 by (simp add: float_of_def e_def Let_def)
  also have "\<dots> = x / 2 powi e * 2 powi e"
    by (simp add: m round_half_even_of_int)
  also have "\<dots> = x" by simp
  finally show ?thesis by (simp add: x_def)
qed

text \<open>
  One step of the recurrence. \<open>S\<close> is the exact sum of the response times so far and \<open>E\<close>
  bounds how far \<open>n - 1\<close> times the stored average is from it; the three roundings of the
  step multiply that distance by at most \<open>(1 + 2 ^ - 53) ^ 3\<close> and add a rounding error
  in proportion to the sum.
\<close>

lemma avg_step_error:
  fixes a t S E T :: rat and n :: int
  assumes n: "1 \<le> n" "n \<le> 2 ^ 53"
    and E: "\<bar>a * of_int (n - 1) - S\<bar> \<le> E"
    and S: "\<bar>S\<bar> \<le> of_int n * T - T"
    and t: "\<bar>t\<bar> \<le> T"
  shows "\<bar>float_of (float_of (float_of (a * float_of (of_int (n - 1))) + t) / float_of (of_int n))
            * of_int n - (S + t)\<bar>
         \<le> (1 + 1 / 2 ^ 53) ^ 3 * E + ((1 + 1 / 2 ^ 53) ^ 3 - 1) * (of_int n * T)
           + (of_int n + 2 * (1 + 1 / 2 ^ 53) ^ 3) * (1 / 2 ^ 1075)"
proof -
  from n have c1: "float_of (of_int (n - 1)) = of_int (n - 1)"
    by (intro float_of_of_int) simp
  from n have c2: "float_of (of_int n) = of_int n"
    by (intro float_of_of_int) simp
  define x1 where "x1 = a * of_int (n - 1)"
  define p where "p = float_of x1"
  define x2 where "x2 = p + t"
  define q where "q = float_of x2"
  define x3 where "x3 = q / of_int n"
  define r where "r = float_of x3"
  define N :: rat where "N = of_int n"
  define A1 where "A1 = \<bar>x1\<bar>"
  define A2 where "A2 = \<bar>x2\<bar>"
  define Aq where "Aq = \<bar>q\<bar>"
  define D1 where "D1 = \<bar>p - x1\<bar>"
  define D2 where "D2 = \<bar>q - x2\<bar>"
  define D3 where "D3 = N * \<bar>r - x3\<bar>"
  define D0 where "D0 = \<bar>x1 - S\<bar>"
  define M where "M = N * T"
  have N: "1 \<le> N" using n by (simp add: N_def)
  have d1: "D1 \<le> A1 / 2 ^ 53 + 1 / 2 ^ 1075"
    unfolding D1_def A1_def p_def by (rule float_of_error)
  have d2: "D2 \<le> A2 / 2 ^ 53 + 1 / 2 ^ 1075"
    unfolding D2_def A2_def q_def by (rule float_of_error)
  have "N * \<bar>r - x3\<bar> \<le> N * (\<bar>x3\<bar> / 2 ^ 53 + 1 / 2 ^ 1075)"
    unfolding r_def using N by (intro mult_left_mono float_of_error) simp
  moreover have "N * \<bar>x3\<bar> = Aq"
    using N by (simp add: x3_def Aq_def N_def abs_divide)
  ultimately have d3: "D3 \<le> Aq / 2 ^ 53 + N * (1 / 2 ^ 1075)"
    by (simp add: D3_def algebra_simps)
  have d0: "D0 \<le> E" using E by (simp add: D0_def x1_def)
  have a1: "A1 \<le> D0 + (M - T)"
  proof -
    have "\<bar>x1\<bar> \<le> \<bar>x1 - S\<bar> + \<bar>S\<bar>" by simp
    with S show ?thesis by (simp add: A1_def D0_def M_def N_def)
  qed
  have ap: "\<bar>p\<bar> \<le> A1 + D1"
  proof -
    have "\<bar>p\<bar> \<le> \<bar>x1\<bar> + \<bar>p - x1\<bar>" by simp
    then show ?thesis by (simp add: A1_def D1_def)
  qed
  have a2: "A2 \<le> A1 + D1 + T"
  proof -
    have "\<bar>x2\<bar> \<le> \<bar>p\<bar> + \<bar>t\<bar>" by (simp add: x2_def)
    with ap t show ?thesis by (simp add: A2_def)
  qed
  have aq: "Aq \<le> A2 + D2"
  proof -
    have "\<bar>q\<bar> \<le> \<bar>x2\<bar> + \<bar>q - x2\<bar>" by simp
    then show ?thesis by (simp add: Aq_def A2_def D2_def)
  qed
  have T0: "0 \<le> T" using t by simp
  have D0n: "0 \<le> D0" by (simp add: D0_def)
  have "N * x3 = q" using N by (simp add: x3_def N_def)
  then have "r * N - (S + t) = N * (r - x3) + (q - x2) + (p - x1) + (x1 - S)"
    by (simp add: x2_def algebra_simps)
  also have "\<bar>\<dots>\<bar> \<le> \<bar>N * (r - x3)\<bar> + \<bar>q - x2\<bar> + \<bar>p - x1\<bar> + \<bar>x1 - S\<bar>"
    by (intro order_trans[OF abs_triangle_ineq] add_mono order_refl)
  also have "\<dots> = D3 + D2 + D1 + D0"
    using N by (simp add: D3_def D2_def D1_def D0_def abs_mult)
  finally have total: "\<bar>r * N - (S + t)\<bar> \<le> D3 + D2 + D1 + D0" .
  define u :: rat where "u = 1 / 2 ^ 53"
  define eps :: rat where "eps = 1 / 2 ^ 1075"
  have u: "0 \<le> u" and eps: "0 \<le> eps" by (simp_all add: u_def eps_def)
  define X where "X = E + M - T"
  define Y where "Y = X * (1 + u) + eps + T"
  define Z where "Z = (1 + u) * Y + eps"
  have b1: "A1 \<le> X" using a1 d0 by (simp add: X_def)
  have "D1 \<le> u * A1 + eps" using d1 by (simp add: u_def eps_def)
  also have "u * A1 \<le> u * X" using b1 u by (rule mult_left_mono)
  finally have c1': "D1 \<le> u * X + eps" by simp
  have b2: "A2 \<le> Y" using a2 b1 c1' by (simp add: Y_def algebra_simps)
  have "D2 \<le> u * A2 + eps" using d2 by (simp add: u_def eps_def)
  also have "u * A2 \<le> u * Y" using b2 u by (rule mult_left_mono)
  finally have c2': "D2 \<le> u * Y + eps" by simp
  have b3: "Aq \<le> Z" using aq b2 c2' by (simp add: Z_def algebra_simps)
  have "D3 \<le> u * Aq + N * eps" using d3 by (simp add: u_def eps_def)
  also have "u * Aq \<le> u * Z" using b3 u by (rule mult_left_mono)
  finally have c3': "D3 \<le> u * Z + N * eps" by simp
  have sum: "D3 + D2 + D1 + D0 \<le> (u * Z + N * eps) + (u * Y + eps) + (u * X + eps) + E"
    using c1' c2' c3' d0 by linarith
  have extra: "0 \<le> T * (u + 2 * u ^ 2 + u ^ 3) + eps * (3 * u + 5 * u ^ 2 + 2 * u ^ 3)"
    using T0 u eps by (intro add_nonneg_nonneg mult_nonneg_nonneg) simp_all
  have "(1 + u) ^ 3 * E + ((1 + u) ^ 3 - 1) * M + (N + 2 * (1 + u) ^ 3) * eps =
      ((u * Z + N * eps) + (u * Y + eps) + (u * X + eps) + E)
      + (T * (u + 2 * u ^ 2 + u ^ 3) + eps * (3 * u + 5 * u ^ 2 + 2 * u ^ 3))"
    by (simp add: Z_def Y_def X_def power3_eq_cube power2_eq_square algebra_simps)
  with sum extra have bound: "D3 + D2 + D1 + D0 \<le>
      (1 + u) ^ 3 * E + ((1 + u) ^ 3 - 1) * M + (N + 2 * (1 + u) ^ 3) * eps"
    by linarith
  have "r = float_of (float_of (float_of (a * float_of (of_int (n - 1))) + t) / float_of (of_int n))"
    by (simp only: r_def x3_def q_def x2_def p_def x1_def c1 c2)
  with total bound show ?thesis
    unfolding u_def eps_def N_def M_def by (simp only:)
qed

section \<open>The running average\<close>

lemma update_analytics_seq_append:
  "update_analytics_seq enc dec (xs @ ys) f =
     (case update_analytics_seq enc dec xs f of
        (Inl e, f', reports) \<Rightarrow> (Inl e, f', reports)
      | (Inr u, f', reports) \<Rightarrow>
          (case update_analytics_seq enc dec ys f' of
             (r, f'', reports') \<Rightarrow> (r, f'', reports @ reports')))"
proof (induction xs arbitrary: f)
  case Nil
  then show ?case by (simp split: prod.splits)
next
  case (Cons x xs)
  obtain outcome cd where x: "x = (outcome, cd)" by (cases x)
  show ?case
    by (simp add: x Cons.IH split: prod.splits sum.splits)
qed

lemma abs_sum_response_times:
  assumes "\<forall>cd \<in> set cds. \<bar>response_time cd\<bar> \<le> T"
  shows "\<bar>sum_list (map response_time cds)\<bar> \<le> of_nat (length cds) * T"
  using assms
proof (induction cds)
  case Nil
  then show ?case by simp
next
  case (Cons cd cds)
  then have "\<bar>response_time cd\<bar> \<le> T"
    and "\<bar>sum_list (map response_time cds)\<bar> \<le> of_nat (length cds) * T"
    by simp_all
  then show ?case by (simp add: algebra_simps)
qed

text \<open>The bound on the accumulated rounding error grows as the step lemma needs.\<close>

lemma error_bound_step:
  fixes T g G eps N :: rat
  assumes "1 \<le> g" "1 \<le> G" "0 \<le> T" "0 \<le> eps" "0 \<le> N"
  shows "g * (N * T * (G - 1) + (N * N + 2 * N) * eps * G) + (g - 1) * ((N + 1) * T)
           + ((N + 1) + 2 * g) * eps
         \<le> (N + 1) * T * (g * G - 1) + ((N + 1) * (N + 1) + 2 * (N + 1)) * eps * (g * G)"
proof -
  have "g * 1 \<le> g * G" using assms by (intro mult_left_mono) simp_all
  then have gG: "g \<le> g * G" "1 \<le> g * G" using assms(1) by linarith+
  have "(2 * N + 1) * 1 \<le> (2 * N + 1) * (g * G)"
    using gG(2) assms(5) by (intro mult_left_mono) simp_all
  moreover have "2 * g \<le> 2 * (g * G)" using gG(1) by simp
  ultimately have "N + 1 + 2 * g \<le> (2 * N + 3) * (g * G)"
    using assms(5) by (simp add: algebra_simps)
  then have "0 \<le> eps * ((2 * N + 3) * (g * G) - N - 1 - 2 * g)"
    using assms(4) by (intro mult_nonneg_nonneg) simp_all
  moreover have "0 \<le> T * g * (G - 1)"
    using assms by (intro mult_nonneg_nonneg) simp_all
  moreover have "(N + 1) * T * (g * G - 1) + ((N + 1) * (N + 1) + 2 * (N + 1)) * eps * (g * G) =
      (g * (N * T * (G - 1) + (N * N + 2 * N) * eps * G) + (g - 1) * ((N + 1) * T)
           + ((N + 1) + 2 * g) * eps)
      + T * g * (G - 1) + eps * ((2 * N + 3) * (g * G) - N - 1 - 2 * g)"
    by (simp add: algebra_simps)
  ultimately show ?thesis by linarith
qed

text \<open>
  A run of calls from no statistics file, every write completing: the count is the
  number of records, and the count times the stored average is within the accumulated
  rounding error of the exact sum of the response times.
\<close>

lemma update_analytics_seq_average:
  assumes rt: "json_round_trip enc dec"
  shows "\<forall>cd \<in> set cds. \<bar>response_time cd\<bar> \<le> T \<Longrightarrow> int (length cds) \<le> 2 ^ 53 \<Longrightarrow>
    \<exists>f reports.
      update_analytics_seq enc dec (map (Pair Written) cds) Missing = (Inr (), f, reports) \<and>
      well_formed (fst (load_analytics dec f)) \<and>
      total_conversations (fst (load_analytics dec f)) = int (length cds) \<and>
      \<bar>avg_response_time (fst (load_analytics dec f)) * of_nat (length cds)
         - sum_list (map response_time cds)\<bar>
        \<le> of_nat (length cds) * T * (((1 + 1 / 2 ^ 53) ^ 3) ^ length cds - 1)
          + (of_nat (length cds) * of_nat (length cds) + 2 * of_nat (length cds))
            * (1 / 2 ^ 1075) * ((1 + 1 / 2 ^ 53) ^ 3) ^ length cds"
proof (induction cds rule: rev_induct)
  case Nil
  show ?case
    by (simp add: load_analytics_def default_analytics_def well_formed_def)
next
  case (snoc cd cds)
  define g :: rat where "g = (1 + 1 / 2 ^ 53) ^ 3"
  define eps :: rat where "eps = 1 / 2 ^ 1075"
  define N :: rat where "N = of_nat (length cds)"
  define S where "S = sum_list (map response_time cds)"
  have g1: "1 \<le> g" by (simp add: g_def)
  have G1: "1 \<le> g ^ length cds" using g1 by (rule one_le_power)
  have eps0: "0 \<le> eps" by (simp add: eps_def)
  have N0: "0 \<le> N" by (simp add: N_def)
  from snoc.prems have bnd: "\<forall>cd \<in> set cds. \<bar>response_time cd\<bar> \<le> T"
    and t: "\<bar>response_time cd\<bar> \<le> T" and len: "int (length cds) + 1 \<le> 2 ^ 53"
    by simp_all
  then have T0: "0 \<le> T" by linarith
  from len have "int (length cds) \<le> 2 ^ 53" by simp
  from snoc.IH[OF bnd this]
  obtain f reports where
    run: "update_analytics_seq enc dec (map (Pair Written) cds) Missing = (Inr (), f, reports)"
    and wf: "well_formed (fst (load_analytics dec f))"
    and tc: "total_conversations (fst (load_analytics dec f)) = int (length cds)"
    and err: "\<bar>avg_response_time (fst (load_analytics dec f)) * N - S\<bar>
        \<le> N * T * (g ^ length cds - 1) + (N * N + 2 * N) * eps * g ^ length cds"
    unfolding g_def eps_def N_def S_def by blast
  obtain a loaded where load: "load_analytics dec f = (a, loaded)"
    by (cases "load_analytics dec f")
  with wf tc err have wfa: "well_formed a" and tca: "total_conversations a = int (length cds)"
    and erra: "\<bar>avg_response_time a * N - S\<bar>
        \<le> N * T * (g ^ length cds - 1) + (N * N + 2 * N) * eps * g ^ length cds"
    by simp_all
  define a1 where "a1 =
    \<lparr>total_conversations = total_conversations a + 1,
     total_tokens = total_tokens a + conversation_data.total_tokens cd,
     avg_response_time =
       float_of
         (float_of (float_of (avg_response_time a * float_of (of_int (total_conversations a)))
            + response_time cd)
          / float_of (of_int (total_conversations a + 1))),
     model_usage = dict_increment (model cd) (model_usage a),
     user_activity = dict_increment (username cd) (user_activity a)\<rparr>"
  from tca have "total_conversations a \<noteq> - 1" by simp
  from update_analytics_Written[OF load this, of enc cd]
  have step: "update_analytics enc dec Written cd f = (Inr (), Content (enc a1), loaded)"
    by (simp add: a1_def)
  from wfa have wf1: "well_formed a1"
    by (simp add: well_formed_def a1_def distinct_dict_increment)
  have load1: "load_analytics dec (Content (enc a1)) = (a1, [])"
    by (rule load_Content_enc[OF rt wf1])
  have run1: "update_analytics_seq enc dec (map (Pair Written) (cds @ [cd])) Missing =
      (Inr (), Content (enc a1), reports @ loaded)"
    by (simp add: update_analytics_seq_append run step)
  have tc1: "total_conversations a1 = int (length (cds @ [cd]))"
    by (simp add: a1_def tca)
  define n :: int where "n = int (length cds) + 1"
  have n: "1 \<le> n" "n \<le> 2 ^ 53" using len by (simp_all add: n_def)
  have nN: "(of_int n :: rat) = N + 1" "(of_int (n - 1) :: rat) = N"
    by (simp_all add: n_def N_def)
  have avg1: "avg_response_time a1 =
      float_of (float_of (float_of (avg_response_time a * float_of (of_int (n - 1)))
        + response_time cd) / float_of (of_int n))"
    by (simp add: a1_def tca n_def)
  have E: "\<bar>avg_response_time a * of_int (n - 1) - S\<bar>
      \<le> N * T * (g ^ length cds - 1) + (N * N + 2 * N) * eps * g ^ length cds"
    using erra by (simp only: nN)
  have "\<bar>S\<bar> \<le> N * T"
    unfolding S_def N_def by (rule abs_sum_response_times[OF bnd])
  then have Sb: "\<bar>S\<bar> \<le> of_int n * T - T" by (simp add: nN algebra_simps)
  from avg_step_error[OF n E Sb t]
  have "\<bar>avg_response_time a1 * of_int n - (S + response_time cd)\<bar>
      \<le> g * (N * T * (g ^ length cds - 1) + (N * N + 2 * N) * eps * g ^ length cds)
        + (g - 1) * (of_int n * T) + (of_int n + 2 * g) * eps"
    by (simp only: avg1 g_def eps_def)
  also have "\<dots> = g * (N * T * (g ^ length cds - 1) + (N * N + 2 * N) * eps * g ^ length cds)
        + (g - 1) * ((N + 1) * T) + ((N + 1) + 2 * g) * eps"
    by (simp only: nN)
  also have "\<dots> \<le> (N + 1) * T * (g * g ^ length cds - 1)
        + ((N + 1) * (N + 1) + 2 * (N + 1)) * eps * (g * g ^ length cds)"
    by (rule error_bound_step[OF g1 G1 T0 eps0 N0])
  finally have err1: "\<bar>avg_response_time a1 * (N + 1) - (S + response_time cd)\<bar>
      \<le> (N + 1) * T * (g * g ^ length cds - 1)
        + ((N + 1) * (N + 1) + 2 * (N + 1)) * eps * (g * g ^ length cds)"
    by (simp only: nN)
  have N1: "(of_nat (length (cds @ [cd])) :: rat) = N + 1" by (simp add: N_def)
  have S1: "sum_list (map response_time (cds @ [cd])) = S + response_time cd"
    by (simp add: S_def)
  have G: "g ^ length (cds @ [cd]) = g * g ^ length cds" by simp
  have "\<bar>avg_response_time (fst (load_analytics dec (Content (enc a1))))
          * of_nat (length (cds @ [cd])) - sum_list (map response_time (cds @ [cd]))\<bar>
        \<le> of_nat (length (cds @ [cd])) * T * (g ^ length (cds @ [cd]) - 1)
          + (of_nat (length (cds @ [cd])) * of_nat (length (cds @ [cd]))
             + 2 * of_nat (length (cds @ [cd]))) * eps * g ^ length (cds @ [cd])"
    using err1 by (simp only: load1 fst_conv N1 S1 G)
  moreover have "well_formed (fst (load_analytics dec (Content (enc a1))))"
    using wf1 by (simp add: load1)
  moreover have "total_conversations (fst (load_analytics dec (Content (enc a1)))) =
      int (length (cds @ [cd]))"
    using tc1 by (simp add: load1)
  ultimately show ?case
    using run1 unfolding g_def eps_def by blast
qed

text \<open>
  Claim C1, as stated, fails, in two ways. First, a record whose write fails is lost:
  with no statistics file, a call with response time 1 whose write fails and a call
  with response time 2 whose write completes leave the average 2, and the mean of the
  response times passed in is 3/2. Second, the recurrence rounds three times in each
  call: for the response times \<open>0.1\<close>, \<open>0.1\<close>, \<open>1.4\<close>, \<open>0.1\<close>, every write completing, the
  stored average is the float \<open>0.42500000000000004\<close>, while the mean recomputed over the
  history is \<open>0.425\<close>, which is also the float nearest to the exact mean.
\<close>

theorem stored_average_is_not_the_mean:
  "avg_response_time (fst (load_analytics example_dec
     (fst (snd (update_analytics_seq example_enc example_dec
        [(Open_failed, example_conversation ''u1'' 1),
         (Written, example_conversation ''u2'' 2)] Missing))))) = 2 \<and>
   arithmetic_mean [1, 2] = 3 / 2 \<and>
   avg_response_time (fst (load_analytics example_dec
     (fst (snd (update_analytics_seq example_enc example_dec
        (map (\<lambda>t. (Written, example_conversation ''u1'' t)) example_response_times)
        Missing))))) = 1914029841632461 / 2 ^ 52 \<and>
   recomputed_mean example_response_times = 7656119366529843 / 2 ^ 54 \<and>
   float_of (arithmetic_mean example_response_times) = 7656119366529843 / 2 ^ 54 \<and>
   (1914029841632461 / 2 ^ 52 :: rat) \<noteq> 7656119366529843 / 2 ^ 54"
  by code_simp

text \<open>
  Claim C1, amended. Start with no statistics file and apply any sequence of records,
  every write completing. Then the stored \<open>avg_response_time\<close> is the arithmetic mean of
  the response times passed in, up to the rounding of the float arithmetic: with \<open>N\<close>
  records whose response times are at most \<open>T\<close> in absolute value, the two differ by at
  most \<open>T * ((1 + 2 ^ - 53) ^ (3 * N) - 1) + (N + 2) * 2 ^ - 1075 * (1 + 2 ^ - 53) ^ (3 * N)\<close>,
  which is about \<open>3 * N * 2 ^ - 53 * T\<close>. The sequence is arbitrary, so this holds after
  each call of such a run. The number of records is at most \<open>2 ^ 53\<close>, so that the counts
  convert to floats exactly, and \<open>N * T\<close> is at most \<open>2 ^ 1000\<close>, which keeps the results of
  the run far below \<open>2 ^ 1024\<close>, in the range where \<open>float_of\<close> is the program's rounding.
\<close>

theorem stored_average_is_mean_up_to_rounding:
  assumes "json_round_trip enc dec"
    and "\<forall>cd \<in> set cds. \<bar>response_time cd\<bar> \<le> T"
    and "int (length cds) \<le> 2 ^ 53"
    and "of_nat (length cds) * T \<le> 2 ^ 1000"
  shows "\<exists>f reports.
    update_analytics_seq enc dec (map (Pair Written) cds) Missing = (Inr (), f, reports) \<and>
    \<bar>avg_response_time (fst (load_analytics dec f)) - arithmetic_mean (map response_time cds)\<bar>
      \<le> T * ((1 + 1 / 2 ^ 53) ^ (3 * length cds) - 1)
        + (of_nat (length cds) + 2) * (1 / 2 ^ 1075) * (1 + 1 / 2 ^ 53) ^ (3 * length cds)"
proof -
  define g :: rat where "g = (1 + 1 / 2 ^ 53) ^ 3"
  define G where "G = g ^ length cds"
  define N :: rat where "N = of_nat (length cds)"
  define eps :: rat where "eps = 1 / 2 ^ 1075"
  have G: "(1 + 1 / 2 ^ 53 :: rat) ^ (3 * length cds) = G"
    by (simp add: G_def g_def power_mult)
  from update_analytics_seq_average[OF assms(1) assms(2) assms(3)]
  obtain f reports where
    run: "update_analytics_seq enc dec (map (Pair Written) cds) Missing = (Inr (), f, reports)"
    and err: "\<bar>avg_response_time (fst (load_analytics dec f)) * N
         - sum_list (map response_time cds)\<bar>
        \<le> N * T * (G - 1) + (N * N + 2 * N) * eps * G"
    unfolding g_def G_def N_def eps_def by blast
  define a where "a = avg_response_time (fst (load_analytics dec f))"
  have "\<bar>a - arithmetic_mean (map response_time cds)\<bar> \<le> T * (G - 1) + (N + 2) * eps * G"
  proof (cases "cds = []")
    case True
    with run have "f = Missing" by simp
    then have "a = 0" by (simp add: a_def load_analytics_def default_analytics_def)
    moreover have "1 \<le> G" by (simp add: G_def True)
    moreover have "0 \<le> (N + 2) * eps * G"
      using \<open>1 \<le> G\<close> by (simp add: N_def eps_def)
    ultimately show ?thesis by (simp add: True arithmetic_mean_def G_def)
  next
    case False
    then have N: "0 < N" by (simp add: N_def)
    have m: "arithmetic_mean (map response_time cds) = sum_list (map response_time cds) / N"
      using False by (simp add: arithmetic_mean_def N_def)
    have "a - sum_list (map response_time cds) / N = (a * N - sum_list (map response_time cds)) / N"
      using N by (simp add: field_simps)
    then have "\<bar>a - sum_list (map response_time cds) / N\<bar> =
        \<bar>a * N - sum_list (map response_time cds)\<bar> / N"
      using N by (simp add: abs_divide)
    also have "\<dots> \<le> (N * T * (G - 1) + (N * N + 2 * N) * eps * G) / N"
      using err N by (simp add: a_def divide_right_mono)
    also have "\<dots> = T * (G - 1) + (N + 2) * eps * G"
      using N by (simp add: field_simps)
    finally show ?thesis by (simp add: m)
  qed
  then have "\<bar>avg_response_time (fst (load_analytics dec f)) - arithmetic_mean (map response_time cds)\<bar>
      \<le> T * ((1 + 1 / 2 ^ 53) ^ (3 * length cds) - 1)
        + (of_nat (length cds) + 2) * (1 / 2 ^ 1075) * (1 + 1 / 2 ^ 53) ^ (3 * length cds)"
    by (simp only: G a_def N_def eps_def)
  with run show ?thesis by blast
qed

theorem stored_average_is_mean_up_to_rounding_witness:
  "json_round_trip example_enc example_dec \<and>
   list_all (\<lambda>cd. \<bar>response_time cd\<bar> \<le> 3) example_conversations \<and>
   int (length example_conversations) \<le> 2 ^ 53 \<and>
   of_nat (length example_conversations) * (3 :: rat) \<le> 2 ^ 1000 \<and>
   arithmetic_mean (map response_time example_conversations) = 2 \<and>
   (\<exists>f reports.
      update_analytics_seq example_enc example_dec
        (map (Pair Written) example_conversations) Missing = (Inr (), f, reports) \<and>
      \<bar>avg_response_time (fst (load_analytics example_dec f)) - 2\<bar>
        \<le> 3 * ((1 + 1 / 2 ^ 53) ^ (3 * length example_conversations) - 1)
          + (of_nat (length example_conversations) + 2) * (1 / 2 ^ 1075)
            * (1 + 1 / 2 ^ 53) ^ (3 * length example_conversations))"
proof -
  have h2: "\<forall>cd \<in> set example_conversations. \<bar>response_time cd\<bar> \<le> 3"
    by (simp add: example_conversations_def example_conversation_def)
  then have h2': "list_all (\<lambda>cd. \<bar>response_time cd\<bar> \<le> 3) example_conversations"
    by (simp add: list_all_iff)
  have h3: "int (length example_conversations) \<le> 2 ^ 53"
    by (simp add: example_conversations_def)
  have "(3 :: rat) * 3 \<le> 2 ^ 10" by simp
  also have "(2 :: rat) ^ 10 \<le> 2 ^ 1000" by (rule power_increasing) simp_all
  finally have h4: "of_nat (length example_conversations) * (3 :: rat) \<le> 2 ^ 1000"
    by (simp add: example_conversations_def)
  have mean: "arithmetic_mean (map response_time example_conversations) = 2"
    by (simp add: arithmetic_mean_def example_conversations_def example_conversation_def)
  from stored_average_is_mean_up_to_rounding[OF example_round_trip h2 h3 h4]
  show ?thesis using example_round_trip h2' h3 h4 mean by (simp only: mean)
qed

section \<open>Properties of the model lookup\<close>

lemma list_index_None_iff: "list_index xs x = None \<longleftrightarrow> x \<notin> set xs"
  by (induction xs) auto

text \<open>\<open>list_index\<close> returns the first position that holds the element.\<close>

lemma list_index_first:
  "i < length xs \<Longrightarrow> xs ! i = x \<Longrightarrow> \<forall>j<i. xs ! j \<noteq> x \<Longrightarrow> list_index xs x = Some i"
proof (induction xs arbitrary: i)
  case Nil
  then show ?case by simp
next
  case (Cons y ys)
  show ?case
  proof (cases i)
    case 0
    with Cons.prems show ?thesis by simp
  next
    case (Suc k)
    with Cons.prems have "y \<noteq> x" by auto
    moreover from Suc Cons.prems have "k < length ys" "ys ! k = x" by simp_all
    moreover from Suc Cons.prems have "\<forall>j<k. ys ! j \<noteq> x" by auto
    ultimately show ?thesis using Cons.IH[of k] Suc by simp
  qed
qed

lemma length_foldl_append_some:
  "length (foldl (\<lambda>api_keys i.
              case env i of
                Some key \<Rightarrow> if key \<noteq> [] then api_keys @ [key] else api_keys
              | None \<Rightarrow> api_keys) acc is) \<le> length acc + length is"
proof (induction "is" arbitrary: acc)
  case Nil
  then show ?case by simp
next
  case (Cons i "is")
  show ?case
    using Cons.IH[of "case env i of
                Some key \<Rightarrow> if key \<noteq> [] then acc @ [key] else acc
              | None \<Rightarrow> acc"]
    by (auto split: option.splits if_splits)
qed

lemma load_api_keys_length: "length (load_api_keys env) \<le> 4"
  using length_foldl_append_some[of env "[]" "[1..<5]"]
  by (simp add: load_api_keys_def)

text \<open>
  C5. The lookup returns the same default model, the first entry of the model table
  (\<open>deepseek/deepseek-chat\<close>), when the list of credentials is empty, when the credential
  is not in the list, and when the credential's position is beyond the table; a
  credential whose first position \<open>i\<close> in the list is inside the table gets the model
  at position \<open>i\<close>. The list read from the environment has at most four entries, as many
  as the table, so there the third case does not arise.
\<close>

theorem model_for_api_key_default_and_position:
  "get_model_for_api_key_from [] api_key = models ! 0 \<and>
   (api_key \<notin> set api_keys \<longrightarrow> get_model_for_api_key_from api_keys api_key = models ! 0) \<and>
   (i < length api_keys \<and> api_keys ! i = api_key \<and> (\<forall>j<i. api_keys ! j \<noteq> api_key) \<and>
      length models \<le> i \<longrightarrow>
      get_model_for_api_key_from api_keys api_key = models ! 0) \<and>
   (i < length api_keys \<and> api_keys ! i = api_key \<and> (\<forall>j<i. api_keys ! j \<noteq> api_key) \<and>
      i < length models \<longrightarrow>
      get_model_for_api_key_from api_keys api_key = models ! i) \<and>
   models ! 0 = ''deepseek/deepseek-chat'' \<and>
   length models = 4 \<and>
   get_model_for_api_key env api_key = get_model_for_api_key_from (load_api_keys env) api_key \<and>
   length (load_api_keys env) \<le> length models"
proof -
  have default: "models ! 0 = ''deepseek/deepseek-chat''" and len: "length models = 4"
    by (simp_all add: models_def)
  have empty: "get_model_for_api_key_from [] api_key = models ! 0"
    by (simp add: get_model_for_api_key_from_def default)
  have absent: "api_key \<notin> set api_keys \<longrightarrow>
      get_model_for_api_key_from api_keys api_key = models ! 0"
    using list_index_None_iff[of api_keys api_key]
    by (auto simp: get_model_for_api_key_from_def default)
  have beyond: "i < length api_keys \<and> api_keys ! i = api_key \<and>
      (\<forall>j<i. api_keys ! j \<noteq> api_key) \<and> length models \<le> i \<longrightarrow>
      get_model_for_api_key_from api_keys api_key = models ! 0"
    using list_index_first[of i api_keys api_key]
    by (auto simp: get_model_for_api_key_from_def default)
  have inside: "i < length api_keys \<and> api_keys ! i = api_key \<and>
      (\<forall>j<i. api_keys ! j \<noteq> api_key) \<and> i < length models \<longrightarrow>
      get_model_for_api_key_from api_keys api_key = models ! i"
    using list_index_first[of i api_keys api_key]
    by (auto simp: get_model_for_api_key_from_def default)
  have env: "get_model_for_api_key env api_key =
      get_model_for_api_key_from (load_api_keys env) api_key"
    by (simp add: get_model_for_api_key_def)
  have bound: "length (load_api_keys env) \<le> length models"
    using load_api_keys_length[of env] len by simp
  from empty absent beyond inside default len env bound show ?thesis by blast
qed

theorem model_for_api_key_default_and_position_witness:
  "get_model_for_api_key_from [] ''k5'' = ''deepseek/deepseek-chat'' \<and>
   ''k9'' \<notin> set [''k1'', ''k2'', ''k3'', ''k4'', ''k5''] \<and>
   get_model_for_api_key_from [''k1'', ''k2'', ''k3'', ''k4'', ''k5''] ''k9'' =
     ''deepseek/deepseek-chat'' \<and>
   get_model_for_api_key_from [''k1'', ''k2'', ''k3'', ''k4'', ''k5''] ''k5'' =
     ''deepseek/deepseek-chat'' \<and>
   get_model_for_api_key_from [''k1'', ''k2'', ''k3'', ''k4'', ''k5''] ''k3'' =
     ''01-ai/yi-large''"
proof -
  let ?keys = "[''k1'', ''k2'', ''k3'', ''k4'', ''k5'']"
  have absent: "''k9'' \<notin> set ?keys" by simp
  have fifth: "(4::nat) < length ?keys \<and> ?keys ! 4 = ''k5'' \<and> (\<forall>j<4. ?keys ! j \<noteq> ''k5'') \<and>
      length models \<le> 4"
    by (simp add: models_def nth_Cons' eval_nat_numeral All_less_Suc)
  have third: "(2::nat) < length ?keys \<and> ?keys ! 2 = ''k3'' \<and> (\<forall>j<2. ?keys ! j \<noteq> ''k3'') \<and>
      2 < length models"
    by (simp add: models_def nth_Cons' eval_nat_numeral All_less_Suc)
  have m2: "models ! 2 = ''01-ai/yi-large''" by (simp add: models_def)
  from model_for_api_key_default_and_position[where api_key = "''k5''" and api_keys = ?keys
      and i = 4] fifth
  have c1: "get_model_for_api_key_from [] ''k5'' = ''deepseek/deepseek-chat''"
    and c3: "get_model_for_api_key_from ?keys ''k5'' = ''deepseek/deepseek-chat''"
    by simp_all
  from model_for_api_key_default_and_position[where api_key = "''k9''" and api_keys = ?keys]
    absent
  have c2: "get_model_for_api_key_from ?keys ''k9'' = ''deepseek/deepseek-chat''"
    by simp
  from model_for_api_key_default_and_position[where api_key = "''k3''" and api_keys = ?keys
      and i = 2] third m2
  have c4: "get_model_for_api_key_from ?keys ''k3'' = ''01-ai/yi-large''"
    by simp
  from absent c1 c2 c3 c4 show ?thesis by blast
qed

section \<open>Properties of the conversation context\<close>

lemma current_history_add_message:
  "current_history (add_message_to_context r c s) = current_history s @ [\<lparr>role = r, content = c\<rparr>]"
  by (simp add: current_history_def get_conversation_context_def add_message_to_context_def
      initialize_conversation_context_def Let_def split: option.splits)

lemma current_system_prompt_add_message:
  "current_system_prompt (add_message_to_context r c s) = current_system_prompt s"
  by (simp add: current_system_prompt_def get_system_prompt_def add_message_to_context_def
      initialize_conversation_context_def Let_def split: option.splits)



text \<open>The request that \<open>generate_response\<close> posts, and what it returns for each reply.\<close>

lemma snd_generate_response:
  "snd (generate_response provider env p key h sp streaming sent) =
     sent @ [\<lparr>request.model = get_model_for_api_key env key,
              messages = (case sp of Some x \<Rightarrow> system_message x | None \<Rightarrow> []) @
                         (case h of Some ms \<Rightarrow> ms | None \<Rightarrow> []) @
                         [\<lparr>role = ''user'', content = p\<rparr>],
              max_tokens = 4000, temperature = 9 / 10, stream = False\<rparr>]"
  by (simp add: generate_response_def system_message_def Let_def split: option.splits)

lemma fst_generate_response:
  "fst (generate_response provider env p key h sp streaming sent) =
     (case provider (last (snd (generate_response provider env p key h sp streaming sent))) of
        Choice c \<Rightarrow> \<lparr>success = True, content = c, error = None\<rparr>
      | No_choices \<Rightarrow>
          \<lparr>success = False, content = None, error = Some ''No response content received''\<rparr>
      | Request_exception e \<Rightarrow>
          \<lparr>success = False, content = None, error = Some (''Request error: '' @ e)\<rparr>
      | Other_exception e \<Rightarrow>
          \<lparr>success = False, content = None, error = Some (''Unexpected error: '' @ e)\<rparr>)"
  by (simp add: generate_response_def Let_def)

lemma get_conversation_context_add_message:
  "get_conversation_context (add_message_to_context r c s) =
     (current_history s @ [\<lparr>role = r, content = c\<rparr>], add_message_to_context r c s)"
  by (simp add: current_history_def get_conversation_context_def add_message_to_context_def
      initialize_conversation_context_def Let_def split: option.splits)

lemma current_history_get_system_prompt:
  "current_history (snd (get_system_prompt s)) = current_history s"
  by (simp add: current_history_def get_conversation_context_def get_system_prompt_def
      initialize_conversation_context_def Let_def split: option.splits)

text \<open>The request that a call posts.\<close>

lemma posted_with_context:
  "snd (snd (generate_response_with_context provider env elapsed p key True False s sent)) =
     sent @ [\<lparr>request.model = get_model_for_api_key env key,
              messages = system_message (current_system_prompt s) @ current_history s @
                         [\<lparr>role = ''user'', content = p\<rparr>],
              max_tokens = 4000, temperature = 9 / 10, stream = False\<rparr>]"
proof -
  have "fst (get_system_prompt (add_message_to_context ''user'' p s)) = current_system_prompt s"
    using current_system_prompt_add_message [of "''user''" p s]
    by (simp add: current_system_prompt_def)
  then show ?thesis
    by (simp add: generate_response_with_context_def Let_def case_prod_beta
        get_conversation_context_add_message snd_generate_response
        split: option.splits)
qed


text \<open>A call that does not stream, with the calls that read the session state resolved.\<close>

lemma generate_response_with_context_unfold:
  "generate_response_with_context provider env elapsed p key inc False s sent =
     (let s1 = add_message_to_context ''user'' p s;
          s2 = (if inc then snd (get_system_prompt s1) else s1);
          g = generate_response provider env p key
                (if inc then Some (current_history s) else None)
                (if inc then Some (current_system_prompt s) else None) False sent
      in (case content (fst g) of
            None \<Rightarrow> (Inl TypeError, s2, snd g)
          | Some c \<Rightarrow>
              (Inr \<lparr>success = success (fst g), content = content (fst g), error = error (fst g),
                    context_result.response_time = elapsed,
                    context_result.prompt_tokens = count_tokens p,
                    context_result.response_tokens = count_tokens c,
                    context_result.model = get_model_for_api_key env key\<rparr>,
               if success (fst g) \<and> c \<noteq> [] then add_message_to_context ''assistant'' c s2 else s2,
               snd g)))"
proof -
  have "fst (get_system_prompt (add_message_to_context ''user'' p s)) = current_system_prompt s"
    using current_system_prompt_add_message [of "''user''" p s]
    by (simp add: current_system_prompt_def)
  then show ?thesis
    by (simp add: generate_response_with_context_def Let_def case_prod_beta
        get_conversation_context_add_message split: option.splits)
qed

lemma history_after_call:
  "current_history (fst (snd (generate_response_with_context provider env elapsed p key inc False s sent))) =
     current_history s @ [\<lparr>role = ''user'', content = p\<rparr>] @
     (case provider (last (snd (snd (generate_response_with_context provider env elapsed p key inc False s sent)))) of
        Choice (Some c) \<Rightarrow> if c \<noteq> [] then [\<lparr>role = ''assistant'', content = c\<rparr>] else []
      | _ \<Rightarrow> [])"
  by (cases inc)
     (simp_all add: generate_response_with_context_unfold Let_def fst_generate_response
        current_history_add_message current_history_get_system_prompt
        split: option.splits reply.splits)

lemma result_of_failed_call:
  "\<forall>c. provider (last (snd (snd (generate_response_with_context provider env elapsed p key inc False s sent)))) \<noteq> Choice (Some c) \<Longrightarrow>
   fst (generate_response_with_context provider env elapsed p key inc False s sent) = Inl TypeError"
  by (cases inc)
     (simp_all add: generate_response_with_context_unfold Let_def fst_generate_response
        split: option.splits reply.splits)

lemma current_system_prompt_get_system_prompt:
  "current_system_prompt (snd (get_system_prompt s)) = current_system_prompt s"
  by (simp add: current_system_prompt_def get_system_prompt_def
      initialize_conversation_context_def Let_def split: option.splits)

lemma system_prompt_after_call:
  "current_system_prompt (fst (snd (generate_response_with_context provider env elapsed p key inc False s sent))) =
     current_system_prompt s"
  by (cases inc)
     (simp_all add: generate_response_with_context_unfold Let_def
        current_system_prompt_add_message current_system_prompt_get_system_prompt
        split: option.splits)



text \<open>
  Claim C9. A call that does not stream leaves in the conversation what was there, then
  the prompt of the user, then the reply of the assistant when the provider returned a
  content that is not empty, and nothing more otherwise. When the provider call fails
  (an exception, or a body without choices) the prompt therefore stays as the last message,
  without a reply; the call itself then ends with \<open>TypeError\<close>, raised by
  \<open>count_tokens\<close> on the missing content. The next call that includes the history posts
  the retained prompt directly followed by the new one: two user messages in a row.
\<close>

theorem failed_call_keeps_user_message:
  "generate_response_with_context provider env elapsed p key inc False s sent = (r, s', sent') \<Longrightarrow>
   current_history s' =
     current_history s @ [\<lparr>role = ''user'', content = p\<rparr>] @
     (case provider (last sent') of
        Choice (Some c) \<Rightarrow> if c \<noteq> [] then [\<lparr>role = ''assistant'', content = c\<rparr>] else []
      | _ \<Rightarrow> []) \<and>
   ((\<forall>c. provider (last sent') \<noteq> Choice c) \<longrightarrow>
      r = Inl TypeError \<and>
      current_history s' = current_history s @ [\<lparr>role = ''user'', content = p\<rparr>] \<and>
      map messages
        (snd (snd (generate_response_with_context provider2 env2 elapsed2 p2 key2 True False s' []))) =
        [system_message (current_system_prompt s) @ current_history s @
         [\<lparr>role = ''user'', content = p\<rparr>, \<lparr>role = ''user'', content = p2\<rparr>]])"
proof -
  assume call:
    "generate_response_with_context provider env elapsed p key inc False s sent = (r, s', sent')"
  let ?tail = "case provider (last sent') of
        Choice (Some c) \<Rightarrow> if c \<noteq> [] then [\<lparr>role = ''assistant'', content = c\<rparr>] else []
      | _ \<Rightarrow> []"
  have after: "current_history s' = current_history s @ [\<lparr>role = ''user'', content = p\<rparr>] @ ?tail"
    using history_after_call [of provider env elapsed p key inc s sent] call by simp
  have prompt: "current_system_prompt s' = current_system_prompt s"
    using system_prompt_after_call [of provider env elapsed p key inc s sent] call by simp
  have failed: "r = Inl TypeError" if "\<forall>c. provider (last sent') \<noteq> Choice c"
    using result_of_failed_call [of provider env elapsed p key inc s sent] call that by simp
  have kept: "?tail = []" if "\<forall>c. provider (last sent') \<noteq> Choice c"
    using that by (simp split: reply.splits option.splits)
  show ?thesis
    using after prompt failed kept by (simp add: posted_with_context)
qed

theorem failed_call_keeps_user_message_witness:
  "generate_response_with_context (\<lambda>_. No_choices) (\<lambda>_. None) 0 ''hi'' ''k'' True False
     \<lparr>conversation_history = Some [], system_prompt = Some ''Be brief.''\<rparr> [] =
     (Inl TypeError,
      \<lparr>conversation_history = Some [\<lparr>role = ''user'', content = ''hi''\<rparr>],
        system_prompt = Some ''Be brief.''\<rparr>,
      [\<lparr>request.model = ''deepseek/deepseek-chat'',
        messages = [\<lparr>role = ''system'', content = ''Be brief.''\<rparr>,
                    \<lparr>role = ''user'', content = ''hi''\<rparr>],
        max_tokens = 4000, temperature = 9 / 10, stream = False\<rparr>]) \<and>
   map messages
     (snd (snd (generate_response_with_context (\<lambda>_. No_choices) (\<lambda>_. None) 0 ''again'' ''k'' True False
        \<lparr>conversation_history = Some [\<lparr>role = ''user'', content = ''hi''\<rparr>],
          system_prompt = Some ''Be brief.''\<rparr> []))) =
     [[\<lparr>role = ''system'', content = ''Be brief.''\<rparr>, \<lparr>role = ''user'', content = ''hi''\<rparr>,
       \<lparr>role = ''user'', content = ''again''\<rparr>]]"
proof -
  have model: "get_model_for_api_key (\<lambda>_. None) ''k'' = ''deepseek/deepseek-chat''"
    by (simp add: get_model_for_api_key_def get_model_for_api_key_from_def load_api_keys_def
        upt_rec)
  have call:
    "generate_response_with_context (\<lambda>_. No_choices) (\<lambda>_. None) 0 ''hi'' ''k'' True False
       \<lparr>conversation_history = Some [], system_prompt = Some ''Be brief.''\<rparr> [] =
       (Inl TypeError,
        \<lparr>conversation_history = Some [\<lparr>role = ''user'', content = ''hi''\<rparr>],
          system_prompt = Some ''Be brief.''\<rparr>,
        [\<lparr>request.model = ''deepseek/deepseek-chat'',
          messages = [\<lparr>role = ''system'', content = ''Be brief.''\<rparr>,
                      \<lparr>role = ''user'', content = ''hi''\<rparr>],
          max_tokens = 4000, temperature = 9 / 10, stream = False\<rparr>])"
    by (simp add: generate_response_with_context_def generate_response_def model
        get_conversation_context_def get_system_prompt_def add_message_to_context_def Let_def)
  have start:
    "current_history \<lparr>conversation_history = Some [], system_prompt = Some ''Be brief.''\<rparr> = []"
    "system_message (current_system_prompt
        \<lparr>conversation_history = Some [], system_prompt = Some ''Be brief.''\<rparr>) =
       [\<lparr>role = ''system'', content = ''Be brief.''\<rparr>]"
    by (simp_all add: current_history_def get_conversation_context_def system_message_def
        current_system_prompt_def get_system_prompt_def Let_def)
  show ?thesis
    using failed_call_keeps_user_message
      [OF call, where ?provider2.0 = "\<lambda>_. No_choices" and ?env2.0 = "\<lambda>_. None"
         and ?elapsed2.0 = 0 and ?p2.0 = "''again''" and ?key2.0 = "''k''"]
    by (simp add: call start)
qed

end
